theory Spec2Isabelle
  imports Complex_Main
begin

section \<open>JavaScript values used by the bot\<close>

text \<open>
  Strings are byte strings. \<open>String.prototype.toLowerCase\<close> is modelled on the ASCII
  letters (contract addresses, and the usual symbols and names, are ASCII); every other
  character is left as it is. A string is truthy when it is not empty.
\<close>

definition lower_char :: "char \<Rightarrow> char" where
  "lower_char c =
     (case map_of (zip ''ABCDEFGHIJKLMNOPQRSTUVWXYZ'' ''abcdefghijklmnopqrstuvwxyz'') c of
        None \<Rightarrow> c
      | Some d \<Rightarrow> d)"

definition toLowerCase :: "string \<Rightarrow> string" where
  "toLowerCase s = map lower_char s"

text \<open>
  A \<open>Date\<close> object: either a valid instant, in milliseconds since the epoch, or the
  Invalid Date that \<open>new Date(s)\<close> yields for a string it cannot read.
\<close>

datatype jsdate = InvalidDate | ValidDate int

section \<open>The ledger: \<open>DatabaseManager\<close>\<close>

text \<open>
  \<open>MigratedToken\<close> with the fields the scraper fills. \<open>contractAddress\<close> is typed
  \<open>string\<close> in the source but receives \<open>token.tokenAddress\<close> unchecked, so it can be
  \<open>undefined\<close>. \<open>migrationDate\<close> is always a valid instant: the scraper formats it with
  \<open>toISOString\<close>, which throws on an Invalid Date, before it builds the token. Numbers are
  exact rationals.
\<close>

record MigratedToken =
  t_id :: string
  t_name :: string
  t_symbol :: string
  t_contractAddress :: "string option"
  t_migrationDate :: int
  t_createdAt :: jsdate
  t_fromChain :: string
  t_toChain :: string
  t_marketCap :: "rat option"
  t_price :: "rat option"
  t_volume24h :: "rat option"
  t_totalRaised :: "rat option"
  t_bondingDuration :: "rat option"
  t_url :: string
  t_image :: "string option"
  t_bondingCompleted :: "bool option"

record DatabaseData =
  migrations :: "MigratedToken list"
  lastUpdated :: int

text \<open>
  What the file at \<open>dbPath\<close> holds: nothing; text that \<open>readFile\<close> or \<open>JSON.parse\<close>
  rejects; the JSON of a \<open>DatabaseData\<close>, which \<open>JSON.parse\<close> gives back as it was
  written; the JSON text \<open>null\<close>; or the JSON of an object or array that has no
  \<open>migrations\<close> property, such as \<open>{}\<close> or \<open>[]\<close>. The last two parse, and are not ledgers.
  Objects whose \<open>migrations\<close> is present and is not a list of tokens are outside this model.
\<close>

datatype file_content = NoFile | Unparsable | Snapshot DatabaseData | JsonNull | JsonBare

text \<open>
  What \<open>this.data\<close> holds. The field is typed \<open>DatabaseData\<close>, but \<open>initialize\<close> assigns
  it whatever \<open>JSON.parse\<close> returns: \<open>NullData\<close> is \<open>null\<close>, on which every property access
  throws a TypeError; \<open>BareData\<close> is an object or array without \<open>migrations\<close>, on which
  \<open>this.data.migrations\<close> is \<open>undefined\<close> and a property can be set.
\<close>

datatype memory = Ledger DatabaseData | NullData | BareData

text \<open>
  The manager's \<open>this.data\<close> together with the file it writes. \<open>fs_env\<close> is what the
  environment answers during one call: the clock, whether the directory is there, and
  whether \<open>mkdir\<close> and \<open>writeFile\<close> succeed.
\<close>

record DatabaseManager =
  mem :: memory
  disk :: file_content

text \<open>
  The ledger in memory; when \<open>this.data\<close> is not a ledger there are no entries to read.
  \<open>stored\<close> is the file content that \<open>JSON.stringify(this.data)\<close> makes.
\<close>

definition data :: "DatabaseManager \<Rightarrow> DatabaseData" where
  "data s = (case mem s of Ledger d \<Rightarrow> d | _ \<Rightarrow> \<lparr> migrations = [], lastUpdated = 0 \<rparr>)"

definition holdsLedger :: "DatabaseManager \<Rightarrow> bool" where
  "holdsLedger s = (case mem s of Ledger d \<Rightarrow> True | _ \<Rightarrow> False)"

fun stored :: "memory \<Rightarrow> file_content" where
  "stored (Ledger d) = Snapshot d"
| "stored NullData = JsonNull"
| "stored BareData = JsonBare"

record fs_env =
  now :: int
  dirExists :: bool
  mkdirOk :: bool
  writeOk :: bool

datatype error = MkdirError | WriteError | TypeError

text \<open>The constructor: an empty ledger in memory; the file is whatever is on disk.\<close>

definition newDatabaseManager :: "int \<Rightarrow> file_content \<Rightarrow> DatabaseManager" where
  "newDatabaseManager t f = \<lparr> mem = Ledger \<lparr> migrations = [], lastUpdated = t \<rparr>, disk = f \<rparr>"

text \<open>
  \<open>saveData\<close> stamps \<open>lastUpdated\<close> in memory, then writes the whole of \<open>this.data\<close>; a
  failed write is logged and thrown again, with the stamp already made. On \<open>null\<close> the
  stamp itself throws; on an object without \<open>migrations\<close> the stamp is set and the object
  is written as it is.
\<close>

definition saveData :: "fs_env \<Rightarrow> DatabaseManager \<Rightarrow> (error + unit) \<times> DatabaseManager" where
  "saveData env s =
     (case mem s of
        NullData \<Rightarrow> (Inl TypeError, s)
      | BareData \<Rightarrow>
          if writeOk env then (Inr (), s\<lparr> disk := JsonBare \<rparr>) else (Inl WriteError, s)
      | Ledger d \<Rightarrow>
          (let d1 = d\<lparr> lastUpdated := now env \<rparr>;
               s1 = s\<lparr> mem := Ledger d1 \<rparr>
           in if writeOk env then (Inr (), s1\<lparr> disk := Snapshot d1 \<rparr>)
              else (Inl WriteError, s1)))"

text \<open>
  \<open>initialize\<close>: make sure the directory exists (in a directory that had to be made there
  is no file to read), then load the file. \<open>this.data\<close> is assigned as soon as
  \<open>JSON.parse\<close> returns, before \<open>this.data.migrations.length\<close> is read for the log line;
  when the read or the parse throws, \<open>this.data\<close> is kept, and when the log line throws,
  \<open>this.data\<close> is already the parsed value. In both cases the \<open>catch\<close> calls \<open>saveData\<close>.
  Every error of the outer \<open>try\<close> is logged and thrown again.
\<close>

definition initialize :: "fs_env \<Rightarrow> DatabaseManager \<Rightarrow> (error + unit) \<times> DatabaseManager" where
  "initialize env s =
     (if \<not> dirExists env then
        (if mkdirOk env then saveData env s else (Inl MkdirError, s))
      else (case disk s of
              Snapshot d \<Rightarrow> (Inr (), s\<lparr> mem := Ledger d \<rparr>)
            | JsonNull \<Rightarrow> saveData env (s\<lparr> mem := NullData \<rparr>)
            | JsonBare \<Rightarrow> saveData env (s\<lparr> mem := BareData \<rparr>)
            | NoFile \<Rightarrow> saveData env s
            | Unparsable \<Rightarrow> saveData env s))"

text \<open>
  \<open>saveMigration\<close>: drop the entries with the token's id, push the token, sort by
  \<open>migrationDate\<close>, newest first (\<open>Array.prototype.sort\<close> is stable), and save. When
  \<open>this.data\<close> is not a ledger, \<open>this.data.migrations.filter\<close> throws a TypeError, which is
  logged and thrown again.
\<close>

definition saveMigration ::
  "fs_env \<Rightarrow> MigratedToken \<Rightarrow> DatabaseManager \<Rightarrow> (error + unit) \<times> DatabaseManager" where
  "saveMigration env migration s =
     (case mem s of
        Ledger d \<Rightarrow>
          (let kept = filter (\<lambda>m. t_id m \<noteq> t_id migration) (migrations d);
               pushed = kept @ [migration];
               sorted = sort_key (\<lambda>m. - t_migrationDate m) pushed
           in saveData env (s\<lparr> mem := Ledger (d\<lparr> migrations := sorted \<rparr>) \<rparr>))
      | _ \<Rightarrow> (Inl TypeError, s))"

text \<open>\<open>clearDatabase\<close> assigns a new empty ledger, whatever \<open>this.data\<close> was, and saves.\<close>

definition clearDatabase :: "fs_env \<Rightarrow> DatabaseManager \<Rightarrow> (error + unit) \<times> DatabaseManager" where
  "clearDatabase env s =
     saveData env (s\<lparr> mem := Ledger \<lparr> migrations = [], lastUpdated = now env \<rparr> \<rparr>)"

text \<open>
  \<open>migrationExistsByDetails\<close>, the three checks in the order of the source. Each is
  \<open>Array.prototype.some\<close> over the ledger; the first that hits returns. On a ledger with
  fields of these types nothing in it throws; when \<open>this.data\<close> is not a ledger,
  \<open>this.data.migrations.some\<close> throws and the \<open>catch\<close> answers false.
\<close>

definition existsByContract :: "MigratedToken list \<Rightarrow> string \<Rightarrow> bool" where
  "existsByContract ms address =
     list_ex (\<lambda>migration. case t_contractAddress migration of
                None \<Rightarrow> False
              | Some a \<Rightarrow> a \<noteq> [] \<and> toLowerCase a = toLowerCase address) ms"

definition checksContract :: "MigratedToken list \<Rightarrow> MigratedToken \<Rightarrow> bool" where
  "checksContract ms token =
     (case t_contractAddress token of
        None \<Rightarrow> False
      | Some address \<Rightarrow> address \<noteq> [] \<and> existsByContract ms address)"

definition existsBySymbolName :: "MigratedToken list \<Rightarrow> MigratedToken \<Rightarrow> bool" where
  "existsBySymbolName ms token =
     list_ex (\<lambda>migration. toLowerCase (t_symbol migration) = toLowerCase (t_symbol token) \<and>
                toLowerCase (t_name migration) = toLowerCase (t_name token)) ms"

definition existsById :: "MigratedToken list \<Rightarrow> MigratedToken \<Rightarrow> bool" where
  "existsById ms token = list_ex (\<lambda>migration. t_id migration = t_id token) ms"

definition migrationExistsByDetails :: "DatabaseManager \<Rightarrow> MigratedToken \<Rightarrow> bool" where
  "migrationExistsByDetails s token =
     (case mem s of
        Ledger d \<Rightarrow>
          (let ms = migrations d in
           if checksContract ms token then True
           else if existsBySymbolName ms token then True
           else if existsById ms token then True
           else False)
      | _ \<Rightarrow> False)"

text \<open>The check whose debug line the source logs: 1, 2 or 3, or none.\<close>

definition matchedTier :: "DatabaseManager \<Rightarrow> MigratedToken \<Rightarrow> nat option" where
  "matchedTier s token =
     (case mem s of
        Ledger d \<Rightarrow>
          (let ms = migrations d in
           if checksContract ms token then Some 1
           else if existsBySymbolName ms token then Some 2
           else if existsById ms token then Some 3
           else None)
      | _ \<Rightarrow> None)"

section \<open>The cycle: \<open>BagsFmBot.checkForNewMigrations\<close>\<close>

text \<open>
  The loop over the fetched launches. \<open>env i\<close> is what the file system answers while the
  launch at position \<open>i\<close> is handled. A \<open>saveMigration\<close> that throws leaves the loop, with
  the ledger as it is at that moment.
\<close>

fun checkLoop ::
  "(nat \<Rightarrow> fs_env) \<Rightarrow> nat \<Rightarrow> MigratedToken list \<Rightarrow> MigratedToken list \<Rightarrow> DatabaseManager
     \<Rightarrow> (error + MigratedToken list) \<times> DatabaseManager" where
  "checkLoop env i [] newMigrations s = (Inr newMigrations, s)"
| "checkLoop env i (launch # rest) newMigrations s =
     (if migrationExistsByDetails s launch then checkLoop env (Suc i) rest newMigrations s
      else (case saveMigration (env i) launch s of
              (Inl e, s') \<Rightarrow> (Inl e, s')
            | (Inr u, s') \<Rightarrow> checkLoop env (Suc i) rest (newMigrations @ [launch]) s'))"

text \<open>
  The whole cycle on the launches the scraper returned: the tokens handed to
  \<open>sendMigrationNotification\<close>, in order, and the manager afterwards. The notifications go
  out after the loop, so a loop that threw sends none; the error is logged and swallowed.
\<close>

definition checkForNewMigrations ::
  "(nat \<Rightarrow> fs_env) \<Rightarrow> MigratedToken list \<Rightarrow> DatabaseManager
     \<Rightarrow> MigratedToken list \<times> DatabaseManager" where
  "checkForNewMigrations env launches s =
     (case checkLoop env 0 launches [] s of
        (Inr newMigrations, s') \<Rightarrow> (newMigrations, s')
      | (Inl e, s') \<Rightarrow> ([], s'))"

section \<open>The scraper: \<open>parseTokenLaunches\<close>\<close>

text \<open>
  \<open>BagsApiToken\<close>, with the fields the parser reads. A string field is \<open>None\<close> when the
  record lacks it. A timestamp field is \<open>None\<close> when the record lacks it or holds the empty
  string (both are falsy), and otherwise the \<open>Date\<close> that \<open>new Date\<close> makes of its text.
\<close>

record BondingCurve =
  completed :: bool
  bc_completedAt :: "jsdate option"
  bc_totalRaised :: "rat option"

record BagsApiToken =
  tokenAddress :: "string option"
  name :: "string option"
  symbol :: "string option"
  image :: "string option"
  createdAt :: "jsdate option"
  migratedAt :: "jsdate option"
  launchedAt :: "jsdate option"
  bondingCompletedAt :: "jsdate option"
  completedAt :: "jsdate option"
  marketCap :: "rat option"
  price :: "rat option"
  volume24h :: "rat option"
  totalRaised :: "rat option"
  bondingCurve :: "BondingCurve option"
  migrated :: "bool option"

text \<open>
  What the runtime answers while one record is parsed: the two \<open>new Date()\<close> readings
  (for \<open>migrationDate\<close>, then for \<open>createdDate\<close>) and the texts of \<open>Date.now()\<close> and
  \<open>Math.random()\<close>.
\<close>

record clock =
  newDate_migration :: int
  newDate_created :: int
  dateNow_text :: string
  random_text :: string

text \<open>
  JavaScript truthiness of an optional number, and \<open>a || b\<close> where \<open>a\<close> is an
  optional string.
\<close>

fun truthy_num :: "rat option \<Rightarrow> bool" where
  "truthy_num None = False"
| "truthy_num (Some x) = (x \<noteq> 0)"

fun or_else :: "string option \<Rightarrow> string \<Rightarrow> string" where
  "or_else None d = d"
| "or_else (Some s) d = (if s \<noteq> [] then s else d)"

text \<open>A value inside a template literal.\<close>

fun template :: "string option \<Rightarrow> string" where
  "template None = ''undefined''"
| "template (Some s) = s"

definition isAlnum :: "char \<Rightarrow> bool" where
  "isAlnum c = (c \<in> set (''abcdefghijklmnopqrstuvwxyz'' @ ''ABCDEFGHIJKLMNOPQRSTUVWXYZ'' @ ''0123456789''))"

text \<open>\<open>let marketCap = token.marketCap; if (!marketCap && token.price) marketCap = token.price * 1000000000\<close>\<close>

definition derivedMarketCap :: "BagsApiToken \<Rightarrow> rat option" where
  "derivedMarketCap token =
     (case price token of
        None \<Rightarrow> marketCap token
      | Some p \<Rightarrow> if \<not> truthy_num (marketCap token) \<and> p \<noteq> 0 then Some (p * 1000000000)
                  else marketCap token)"

definition hasCompletedBonding :: "BagsApiToken \<Rightarrow> bool" where
  "hasCompletedBonding token =
     ((case bondingCurve token of None \<Rightarrow> False | Some bc \<Rightarrow> completed bc) \<or>
      migrated token = Some True \<or>
      migratedAt token \<noteq> None \<or>
      bondingCompletedAt token \<noteq> None \<or>
      completedAt token \<noteq> None)"

definition hasCrossed100kMcap :: "rat option \<Rightarrow> bool" where
  "hasCrossed100kMcap mc = (case mc of None \<Rightarrow> False | Some m \<Rightarrow> m \<noteq> 0 \<and> m \<ge> 100000)"

definition createdDate :: "clock \<Rightarrow> BagsApiToken \<Rightarrow> jsdate" where
  "createdDate c token =
     (case createdAt token of None \<Rightarrow> ValidDate (newDate_created c) | Some d \<Rightarrow> d)"

definition curveCompletedAt :: "BagsApiToken \<Rightarrow> jsdate option" where
  "curveCompletedAt token =
     (case bondingCurve token of None \<Rightarrow> None | Some bc \<Rightarrow> bc_completedAt bc)"

text \<open>The \<open>if\<close> / \<open>else if\<close> chain that picks \<open>migrationDate\<close>.\<close>

definition migrationDate :: "clock \<Rightarrow> BagsApiToken \<Rightarrow> jsdate" where
  "migrationDate c token =
     (case curveCompletedAt token of Some d \<Rightarrow> d | None \<Rightarrow>
      (case migratedAt token of Some d \<Rightarrow> d | None \<Rightarrow>
       (case launchedAt token of Some d \<Rightarrow> d | None \<Rightarrow>
        (case bondingCompletedAt token of Some d \<Rightarrow> d | None \<Rightarrow>
         (case completedAt token of Some d \<Rightarrow> d | None \<Rightarrow>
          (case createdAt token of Some d \<Rightarrow> d | None \<Rightarrow>
           ValidDate (newDate_migration c)))))))"

text \<open>
  \<open>if (migrationDate > createdDate) bondingDuration = (difference in ms) / (1000 * 60 * 60)\<close>;
  a comparison with an Invalid Date is false.
\<close>

fun bondingDuration :: "jsdate \<Rightarrow> jsdate \<Rightarrow> rat option" where
  "bondingDuration (ValidDate created) (ValidDate migration) =
     (if migration > created then Some (of_int (migration - created) / (1000 * 60 * 60)) else None)"
| "bondingDuration _ _ = None"

text \<open>\<open>token.totalRaised || token.bondingCurve?.totalRaised\<close>\<close>

definition totalRaisedOf :: "BagsApiToken \<Rightarrow> rat option" where
  "totalRaisedOf token =
     (if truthy_num (totalRaised token) then totalRaised token
      else (case bondingCurve token of None \<Rightarrow> None | Some bc \<Rightarrow> bc_totalRaised bc))"

text \<open>The two ways the source fills \<open>id\<close> when \<open>tokenAddress\<close> is falsy.\<close>

definition synthesizedId :: "BagsApiToken \<Rightarrow> string" where
  "synthesizedId token =
     filter isAlnum (''token-'' @ template (symbol token) @ ''-'' @ template (name token))"

definition randomId :: "clock \<Rightarrow> string" where
  "randomId c = ''token-'' @ dateNow_text c @ ''-'' @ random_text c"

datatype parsed = Included MigratedToken | Skipped | ParseError

text \<open>
  The object literal both parsers build, given the id, the \<open>toChain\<close> label and the
  \<open>bondingCompleted\<close> flag, which differ between them.
\<close>

definition buildMigration ::
  "clock \<Rightarrow> BagsApiToken \<Rightarrow> string \<Rightarrow> string \<Rightarrow> bool option \<Rightarrow> int \<Rightarrow> MigratedToken" where
  "buildMigration c token ident chain flag migrationMs =
     \<lparr> t_id = ident,
       t_name = or_else (name token) ''Unknown Token'',
       t_symbol = or_else (symbol token) ''UNKNOWN'',
       t_contractAddress = tokenAddress token,
       t_migrationDate = migrationMs,
       t_createdAt = createdDate c token,
       t_fromChain = ''Solana'',
       t_toChain = chain,
       t_marketCap = derivedMarketCap token,
       t_price = price token,
       t_volume24h = volume24h token,
       t_totalRaised = totalRaisedOf token,
       t_bondingDuration = bondingDuration (createdDate c token) (ValidDate migrationMs),
       t_url = ''https://bags.fm/token/'' @ template (tokenAddress token),
       t_image = image token,
       t_bondingCompleted = flag \<rparr>"

text \<open>
  The loop body of \<open>parseTokenLaunches\<close> as \<open>getNewMigrations\<close> calls it: the
  qualification check comes first and a record that fails it is skipped; then the dates
  are resolved, and \<open>migrationDate.toISOString()\<close> throws on an Invalid Date, which the
  \<open>catch\<close> around the body turns into a dropped record.
\<close>

definition parseToken_getNew :: "clock \<Rightarrow> BagsApiToken \<Rightarrow> parsed" where
  "parseToken_getNew c token =
     (let mc = derivedMarketCap token in
      if \<not> hasCompletedBonding token \<and> \<not> hasCrossed100kMcap mc then Skipped
      else (case migrationDate c token of
              InvalidDate \<Rightarrow> ParseError
            | ValidDate ms \<Rightarrow>
                Included (buildMigration c token
                  (or_else (tokenAddress token) (synthesizedId token))
                  (if hasCrossed100kMcap mc then ''Bags.fm 100k+ Launch'' else ''Bags.fm Launch'')
                  (Some (hasCompletedBonding token)) ms)))"

text \<open>
  The loop body of \<open>parseTokenLaunches\<close> as \<open>fetchMigrations\<close> calls it, the one the bot
  runs: no qualification check, and the fallback id is drawn from the clock and
  \<open>Math.random()\<close>.
\<close>

definition parseToken_fetch :: "clock \<Rightarrow> BagsApiToken \<Rightarrow> parsed" where
  "parseToken_fetch c token =
     (case migrationDate c token of
        InvalidDate \<Rightarrow> ParseError
      | ValidDate ms \<Rightarrow>
          Included (buildMigration c token
            (or_else (tokenAddress token) (randomId c))
            ''Bags.fm Launch'' None ms))"

text \<open>
  The loops over the token list, once the response envelope is unpacked: \<open>clk i\<close> is the
  clock while the record at position \<open>i\<close> is parsed.
\<close>

fun parseLoop ::
  "(clock \<Rightarrow> BagsApiToken \<Rightarrow> parsed) \<Rightarrow> (nat \<Rightarrow> clock) \<Rightarrow> nat \<Rightarrow> BagsApiToken list
     \<Rightarrow> MigratedToken list" where
  "parseLoop body clk i [] = []"
| "parseLoop body clk i (token # rest) =
     (case body (clk i) token of
        Included m \<Rightarrow> m # parseLoop body clk (Suc i) rest
      | _ \<Rightarrow> parseLoop body clk (Suc i) rest)"

definition parseTokenLaunches_getNew :: "(nat \<Rightarrow> clock) \<Rightarrow> BagsApiToken list \<Rightarrow> MigratedToken list" where
  "parseTokenLaunches_getNew clk tokenList = parseLoop parseToken_getNew clk 0 tokenList"

definition parseTokenLaunches_fetch :: "(nat \<Rightarrow> clock) \<Rightarrow> BagsApiToken list \<Rightarrow> MigratedToken list" where
  "parseTokenLaunches_fetch clk tokenList = parseLoop parseToken_fetch clk 0 tokenList"

section \<open>The properties, as the specification words them\<close>

text \<open>
  The three identity tiers of \<open>exists(token)\<close>: a contract address on both sides, equal
  without regard to case; symbol and name both equal without regard to case; equal ids.
  A side has a contract address when the field is a non-empty string.
\<close>

definition spec_sameContract :: "MigratedToken \<Rightarrow> MigratedToken \<Rightarrow> bool" where
  "spec_sameContract token m =
     (case (t_contractAddress token, t_contractAddress m) of
        (Some a, Some b) \<Rightarrow> a \<noteq> [] \<and> b \<noteq> [] \<and> toLowerCase b = toLowerCase a
      | _ \<Rightarrow> False)"

definition spec_sameSymbolName :: "MigratedToken \<Rightarrow> MigratedToken \<Rightarrow> bool" where
  "spec_sameSymbolName token m =
     (toLowerCase (t_symbol m) = toLowerCase (t_symbol token) \<and>
      toLowerCase (t_name m) = toLowerCase (t_name token))"

definition spec_sameId :: "MigratedToken \<Rightarrow> MigratedToken \<Rightarrow> bool" where
  "spec_sameId token m = (t_id m = t_id token)"

text \<open>A cycle ran in full when no \<open>saveMigration\<close> threw out of its loop.\<close>

definition cycleCompleted :: "(nat \<Rightarrow> fs_env) \<Rightarrow> MigratedToken list \<Rightarrow> DatabaseManager \<Rightarrow> bool" where
  "cycleCompleted env launches s =
     (case fst (checkLoop env 0 launches [] s) of Inr new \<Rightarrow> True | Inl e \<Rightarrow> False)"

text \<open>
  The ledger invariant: at most one entry per id, newest \<open>migrationDate\<close> first. A file is
  in order when it is missing, unparsable, or the snapshot of such a ledger; a file that
  parses to something else is not.
\<close>

definition uniqueIds :: "MigratedToken list \<Rightarrow> bool" where
  "uniqueIds ms = distinct (map t_id ms)"

definition newestFirst :: "MigratedToken list \<Rightarrow> bool" where
  "newestFirst ms = sorted_wrt (\<lambda>a b. t_migrationDate a \<ge> t_migrationDate b) ms"

definition ledgerOk :: "DatabaseData \<Rightarrow> bool" where
  "ledgerOk d = (uniqueIds (migrations d) \<and> newestFirst (migrations d))"

definition storedOk :: "file_content \<Rightarrow> bool" where
  "storedOk f =
     (case f of
        Snapshot d \<Rightarrow> ledgerOk d
      | NoFile \<Rightarrow> True
      | Unparsable \<Rightarrow> True
      | JsonNull \<Rightarrow> False
      | JsonBare \<Rightarrow> False)"

text \<open>
  The timestamp policy, read off the record's own fields: the first present one, in the
  order bonding-curve completion, migration, launch, the two other completion fields,
  creation; else the current time. The creation timestamp is the record's, else the
  current time.
\<close>

fun firstPresent :: "'a option list \<Rightarrow> 'a option" where
  "firstPresent [] = None"
| "firstPresent (Some x # rest) = Some x"
| "firstPresent (None # rest) = firstPresent rest"

definition spec_qualificationTimestamp :: "clock \<Rightarrow> BagsApiToken \<Rightarrow> jsdate" where
  "spec_qualificationTimestamp c token =
     (case firstPresent [case bondingCurve token of None \<Rightarrow> None | Some bc \<Rightarrow> bc_completedAt bc,
                         migratedAt token, launchedAt token,
                         bondingCompletedAt token, completedAt token, createdAt token] of
        Some d \<Rightarrow> d
      | None \<Rightarrow> ValidDate (newDate_migration c))"

definition spec_creationTimestamp :: "clock \<Rightarrow> BagsApiToken \<Rightarrow> jsdate" where
  "spec_creationTimestamp c token =
     (case createdAt token of Some d \<Rightarrow> d | None \<Rightarrow> ValidDate (newDate_created c))"

text \<open>
  \<open>qualificationTimestamp > creationTimestamp\<close>, their difference in hours, and the
  duration field: present only when the difference is positive. An Invalid Date is not
  earlier than anything.
\<close>

fun laterThan :: "int \<Rightarrow> jsdate \<Rightarrow> bool" where
  "laterThan ms (ValidDate created) = (ms > created)"
| "laterThan ms InvalidDate = False"

fun spec_hours :: "int \<Rightarrow> jsdate \<Rightarrow> rat" where
  "spec_hours ms (ValidDate created) = of_int (ms - created) / 3600000"
| "spec_hours ms InvalidDate = 0"

definition spec_bondingDuration :: "int \<Rightarrow> jsdate \<Rightarrow> rat option" where
  "spec_bondingDuration ms created =
     (if laterThan ms created then Some (spec_hours ms created) else None)"

text \<open>
  The qualification rule: a bonding-completion signal in the record, or a market cap of at
  least 100,000.
\<close>

definition spec_qualifies :: "BagsApiToken \<Rightarrow> rat option \<Rightarrow> bool" where
  "spec_qualifies token mc = (hasCompletedBonding token \<or> (\<exists>m. mc = Some m \<and> m \<ge> 100000))"

section \<open>Example values\<close>

definition tok :: "string \<Rightarrow> string \<Rightarrow> string \<Rightarrow> string option \<Rightarrow> int \<Rightarrow> MigratedToken" where
  "tok i n sy a d =
     \<lparr> t_id = i, t_name = n, t_symbol = sy, t_contractAddress = a, t_migrationDate = d,
       t_createdAt = ValidDate d, t_fromChain = ''Solana'', t_toChain = ''Bags.fm Launch'',
       t_marketCap = None, t_price = None, t_volume24h = None, t_totalRaised = None,
       t_bondingDuration = None, t_url = [], t_image = None, t_bondingCompleted = None \<rparr>"

text \<open>A file system whose writes succeed, and one whose writes fail.\<close>

definition env_ok :: "nat \<Rightarrow> fs_env" where
  "env_ok i = \<lparr> now = 1000 + int i, dirExists = True, mkdirOk = True, writeOk = True \<rparr>"

definition env_readonly :: "nat \<Rightarrow> fs_env" where
  "env_readonly i = \<lparr> now = 1000 + int i, dirExists = True, mkdirOk = True, writeOk = False \<rparr>"

text \<open>Three launches; the third repeats the address of the first in another case.\<close>

definition launches_ex :: "MigratedToken list" where
  "launches_ex = [tok ''Addr1'' ''Alpha'' ''ALP'' (Some ''Addr1'') 10,
                  tok ''Addr2'' ''Beta'' ''BET'' (Some ''Addr2'') 30,
                  tok ''ADDR1'' ''Other'' ''OTH'' (Some ''ADDR1'') 20]"

text \<open>The ledger after a first cycle on these launches, and tokens to try against it.\<close>

definition ledger_ex :: DatabaseManager where
  "ledger_ex = \<lparr> mem = Ledger \<lparr> migrations = [tok ''Addr2'' ''Beta'' ''BET'' (Some ''Addr2'') 30,
                                          tok ''Addr1'' ''Alpha'' ''ALP'' (Some ''Addr1'') 10],
                           lastUpdated = 1001 \<rparr>,
                  disk = Snapshot \<lparr> migrations = [tok ''Addr2'' ''Beta'' ''BET'' (Some ''Addr2'') 30,
                                          tok ''Addr1'' ''Alpha'' ''ALP'' (Some ''Addr1'') 10],
                           lastUpdated = 1001 \<rparr> \<rparr>"

definition fresh_ex :: MigratedToken where
  "fresh_ex = tok ''Fresh9'' ''ALPHA'' ''alp'' (Some ''Fresh9'') 50"

definition upsert_ex :: MigratedToken where
  "upsert_ex = tok ''Addr1'' ''Alpha v2'' ''ALP'' (Some ''Addr1'') 40"

text \<open>A first start in a directory that does not exist yet, and a file with a repeated id.\<close>

definition fresh_env :: fs_env where
  "fresh_env = \<lparr> now = 5000, dirExists = False, mkdirOk = True, writeOk = True \<rparr>"

definition dup_file :: file_content where
  "dup_file = Snapshot \<lparr> migrations = [tok ''Addr1'' ''Alpha'' ''ALP'' (Some ''Addr1'') 10,
                                       tok ''Addr1'' ''Alpha'' ''ALP'' (Some ''Addr1'') 30],
                        lastUpdated = 7 \<rparr>"

text \<open>
  Raw records: a base record with an address, a creation time and nothing else, and
  variations of it; two clocks; the id of a parsed record, if it was kept.
\<close>

definition raw_ex :: BagsApiToken where
  "raw_ex = \<lparr> tokenAddress = Some ''Addr1'', name = Some ''Alpha'', symbol = Some ''ALP'',
              image = None, createdAt = Some (ValidDate 1000), migratedAt = None,
              launchedAt = None, bondingCompletedAt = None, completedAt = None,
              marketCap = None, price = None, volume24h = None, totalRaised = None,
              bondingCurve = None, migrated = None \<rparr>"

definition clock_ex :: clock where
  "clock_ex = \<lparr> newDate_migration = 9000000, newDate_created = 9000001,
                dateNow_text = ''1700000000000'', random_text = ''0.25'' \<rparr>"

definition clock_later :: clock where
  "clock_later = \<lparr> newDate_migration = 9300000, newDate_created = 9300001,
                   dateNow_text = ''1700000300000'', random_text = ''0.75'' \<rparr>"

definition clocks_ex :: "nat \<Rightarrow> clock" where
  "clocks_ex i = clock_ex"

definition price_ex :: BagsApiToken where
  "price_ex = raw_ex\<lparr> price := Some (1 / 10000) \<rparr>"

definition zero_ex :: BagsApiToken where
  "zero_ex = raw_ex\<lparr> marketCap := Some 0, price := Some 1 \<rparr>"

definition launch_ex :: BagsApiToken where
  "launch_ex = raw_ex\<lparr> marketCap := Some 200000, launchedAt := Some (ValidDate 5000),
                        completedAt := Some (ValidDate 7000) \<rparr>"

definition bonded_ex :: BagsApiToken where
  "bonded_ex = raw_ex\<lparr> migratedAt := Some (ValidDate 7201000) \<rparr>"

definition curve_ex :: BagsApiToken where
  "curve_ex = raw_ex\<lparr> migratedAt := Some (ValidDate 5000000),
                       bondingCurve := Some \<lparr> completed = False,
                         bc_completedAt = Some (ValidDate 6000000), bc_totalRaised = None \<rparr> \<rparr>"

text \<open>One record for each rung of the timestamp order, and four for the duration.\<close>

definition dates_ex :: "BagsApiToken list" where
  "dates_ex =
     [curve_ex,
      raw_ex\<lparr> migratedAt := Some (ValidDate 5000000), launchedAt := Some (ValidDate 4000000) \<rparr>,
      launch_ex,
      raw_ex\<lparr> bondingCompletedAt := Some (ValidDate 3000), completedAt := Some (ValidDate 7000) \<rparr>,
      raw_ex\<lparr> completedAt := Some (ValidDate 7000) \<rparr>,
      raw_ex,
      raw_ex\<lparr> createdAt := None \<rparr>]"

definition durations_ex :: "BagsApiToken list" where
  "durations_ex =
     [bonded_ex,
      raw_ex\<lparr> migratedAt := Some (ValidDate 500) \<rparr>,
      raw_ex\<lparr> migratedAt := Some (ValidDate 1000) \<rparr>,
      raw_ex\<lparr> createdAt := Some InvalidDate, migratedAt := Some (ValidDate 5000) \<rparr>]"

definition threshold_ex :: BagsApiToken where
  "threshold_ex = raw_ex\<lparr> marketCap := Some 100000 \<rparr>"

definition below_ex :: BagsApiToken where
  "below_ex = raw_ex\<lparr> marketCap := Some (9999999 / 100) \<rparr>"

definition small_ex :: BagsApiToken where
  "small_ex = raw_ex\<lparr> marketCap := Some 5000 \<rparr>"

definition noaddr_ex :: BagsApiToken where
  "noaddr_ex = raw_ex\<lparr> tokenAddress := None, migrated := Some True \<rparr>"

definition idOf :: "parsed \<Rightarrow> string option" where
  "idOf p = (case p of Included t \<Rightarrow> Some (t_id t) | _ \<Rightarrow> None)"

section \<open>Lemmas about the ledger\<close>

lemmas ledger_eval =
  newDatabaseManager_def tok_def env_ok_def env_readonly_def saveMigration_def saveData_def
  initialize_def clearDatabase_def migrationExistsByDetails_def matchedTier_def
  checksContract_def existsByContract_def existsBySymbolName_def existsById_def
  toLowerCase_def lower_char_def checkForNewMigrations_def cycleCompleted_def Let_def
  uniqueIds_def newestFirst_def ledgerOk_def storedOk_def data_def holdsLedger_def

lemma holdsLedger_mem: "holdsLedger s \<Longrightarrow> mem s = Ledger (data s)"
  by (cases "mem s") (simp_all add: holdsLedger_def data_def)

lemma entry_holdsLedger: "m \<in> set (migrations (data s)) \<Longrightarrow> holdsLedger s"
  by (cases "mem s") (simp_all add: holdsLedger_def data_def)

lemma checksContract_iff:
  "checksContract ms token \<longleftrightarrow> (\<exists>m\<in>set ms. spec_sameContract token m)"
  by (auto simp: checksContract_def existsByContract_def spec_sameContract_def list_ex_iff
      split: option.splits)

lemma existsBySymbolName_iff:
  "existsBySymbolName ms token \<longleftrightarrow> (\<exists>m\<in>set ms. spec_sameSymbolName token m)"
  by (simp add: existsBySymbolName_def spec_sameSymbolName_def list_ex_iff)

lemma existsById_iff: "existsById ms token \<longleftrightarrow> (\<exists>m\<in>set ms. spec_sameId token m)"
  by (simp add: existsById_def spec_sameId_def list_ex_iff)

lemma exists_iff:
  "migrationExistsByDetails s token \<longleftrightarrow>
     (\<exists>m\<in>set (migrations (data s)).
        spec_sameContract token m \<or> spec_sameSymbolName token m \<or> spec_sameId token m)"
proof (cases "mem s")
  case (Ledger d)
  then show ?thesis
    unfolding migrationExistsByDetails_def data_def Let_def
    by (auto simp: checksContract_iff existsBySymbolName_iff existsById_iff)
next
  case NullData
  then show ?thesis by (simp add: migrationExistsByDetails_def data_def)
next
  case BareData
  then show ?thesis by (simp add: migrationExistsByDetails_def data_def)
qed

lemma saveData_migrations [simp]:
  "migrations (data (snd (saveData env s))) = migrations (data s)"
  by (cases "mem s") (simp_all add: saveData_def data_def Let_def)

lemma saveData_holdsLedger [simp]: "holdsLedger (snd (saveData env s)) = holdsLedger s"
  by (cases "mem s") (simp_all add: saveData_def holdsLedger_def Let_def)

lemma saveData_flushed: "saveData env s = (Inr u, s') \<Longrightarrow> disk s' = stored (mem s')"
  by (cases "mem s") (auto simp: saveData_def Let_def split: if_splits)

lemma ledger_flushed:
  assumes "disk s = stored (mem s)" and "holdsLedger s"
  shows "disk s = Snapshot (data s)"
  using assms by (cases "mem s") (simp_all add: holdsLedger_def data_def)

lemma saveMigration_no_ledger: "\<not> holdsLedger s \<Longrightarrow> saveMigration env t s = (Inl TypeError, s)"
  by (cases "mem s") (simp_all add: saveMigration_def holdsLedger_def)

lemma saveMigration_holdsLedger [simp]:
  "holdsLedger (snd (saveMigration env t s)) = holdsLedger s"
proof (cases "mem s")
  case (Ledger d)
  then show ?thesis
    by (simp add: saveMigration_def Let_def) (simp add: holdsLedger_def)
next
  case NullData
  then show ?thesis by (simp add: saveMigration_def)
next
  case BareData
  then show ?thesis by (simp add: saveMigration_def)
qed

lemma saveMigration_returns: "saveMigration env t s = (Inr u, s') \<Longrightarrow> holdsLedger s \<and> holdsLedger s'"
proof -
  assume sv: "saveMigration env t s = (Inr u, s')"
  then have "holdsLedger s"
    using saveMigration_no_ledger [of s env t] by auto
  moreover from sv have "holdsLedger s' = holdsLedger s"
    using saveMigration_holdsLedger [of env t s] by simp
  ultimately show ?thesis by simp
qed

lemma saveMigration_migrations:
  assumes "holdsLedger s"
  shows "migrations (data (snd (saveMigration env t s))) =
     sort_key (\<lambda>m. - t_migrationDate m)
       (filter (\<lambda>m. t_id m \<noteq> t_id t) (migrations (data s)) @ [t])"
proof -
  from assms obtain d where d: "mem s = Ledger d"
    by (cases "mem s") (simp_all add: holdsLedger_def)
  have "migrations (data (snd (saveMigration env t s))) =
      migrations (data (s\<lparr> mem := Ledger (d\<lparr> migrations :=
        sort_key (\<lambda>m. - t_migrationDate m) (filter (\<lambda>m. t_id m \<noteq> t_id t) (migrations d) @ [t]) \<rparr>) \<rparr>))"
    using d by (simp add: saveMigration_def Let_def)
  with d show ?thesis by (simp add: data_def)
qed

lemma saveMigration_set:
  assumes "holdsLedger s"
  shows "set (migrations (data (snd (saveMigration env t s)))) =
     insert t {m \<in> set (migrations (data s)). t_id m \<noteq> t_id t}"
  by (auto simp: saveMigration_migrations [OF assms])

lemma saveMigration_ok:
  assumes "writeOk env" and "holdsLedger s"
  shows "fst (saveMigration env t s) = Inr ()"
  using assms by (cases "mem s") (simp_all add: saveMigration_def saveData_def holdsLedger_def Let_def)

text \<open>A token the ledger does not know shares no id with an entry, so saving it drops nothing.\<close>

lemma new_token_keeps_all:
  assumes "holdsLedger s" and "\<not> migrationExistsByDetails s t"
  shows "set (migrations (data (snd (saveMigration env t s)))) = insert t (set (migrations (data s)))"
  using assms(2) by (auto simp: saveMigration_set [OF assms(1)] exists_iff spec_sameId_def)

lemma saveMigration_grows:
  assumes "\<not> migrationExistsByDetails s t"
  shows "set (migrations (data s)) \<subseteq> set (migrations (data (snd (saveMigration env t s))))"
proof (cases "holdsLedger s")
  case True
  from new_token_keeps_all [OF True assms] show ?thesis by auto
next
  case False
  then show ?thesis by (simp add: saveMigration_no_ledger)
qed

lemma exists_mono:
  assumes "set (migrations (data s)) \<subseteq> set (migrations (data s'))"
      and "migrationExistsByDetails s t"
  shows "migrationExistsByDetails s' t"
  using assms unfolding exists_iff by blast

lemma exists_after_save:
  assumes "saveMigration env t s = (Inr u, s')"
  shows "migrationExistsByDetails s' t"
proof -
  from assms have "holdsLedger s" by (simp add: saveMigration_returns)
  from saveMigration_set [OF this, of env t] assms
  have "t \<in> set (migrations (data s'))" by simp
  then show ?thesis
    unfolding exists_iff by (auto simp: spec_sameId_def)
qed

text \<open>Within one loop the ledger only grows, whether the loop ends or throws.\<close>

lemma checkLoop_grows:
  "checkLoop env i ls acc s = (r, s') \<Longrightarrow> set (migrations (data s)) \<subseteq> set (migrations (data s'))"
proof (induction ls arbitrary: i acc s)
  case Nil
  then show ?case by simp
next
  case (Cons launch rest)
  show ?case
  proof (cases "migrationExistsByDetails s launch")
    case True
    with Cons show ?thesis by simp
  next
    case False
    obtain r1 s1 where sv: "saveMigration (env i) launch s = (r1, s1)"
      by (cases "saveMigration (env i) launch s")
    have grow1: "set (migrations (data s)) \<subseteq> set (migrations (data s1))"
      using saveMigration_grows [OF False, of "env i"] sv by auto
    show ?thesis
    proof (cases r1)
      case (Inl e)
      with Cons.prems False sv grow1 show ?thesis by auto
    next
      case (Inr u)
      with Cons.prems False sv
      have "checkLoop env (Suc i) rest (acc @ [launch]) s1 = (r, s')" by simp
      from Cons.IH [OF this] grow1 show ?thesis by blast
    qed
  qed
qed

lemma checkLoop_all_exist:
  "checkLoop env i ls acc s = (Inr new, s') \<Longrightarrow> \<forall>t\<in>set ls. migrationExistsByDetails s' t"
proof (induction ls arbitrary: i acc s)
  case Nil
  then show ?case by simp
next
  case (Cons launch rest)
  show ?case
  proof (cases "migrationExistsByDetails s launch")
    case True
    with Cons.prems have run: "checkLoop env (Suc i) rest acc s = (Inr new, s')" by simp
    from checkLoop_grows [OF run] True have "migrationExistsByDetails s' launch"
      by (rule exists_mono)
    with Cons.IH [OF run] show ?thesis by simp
  next
    case False
    obtain r1 s1 where sv: "saveMigration (env i) launch s = (r1, s1)"
      by (cases "saveMigration (env i) launch s")
    from Cons.prems False sv obtain u where r1: "r1 = Inr u"
      and run: "checkLoop env (Suc i) rest (acc @ [launch]) s1 = (Inr new, s')"
      by (cases r1) auto
    from sv r1 have "migrationExistsByDetails s1 launch"
      using exists_after_save by simp
    with checkLoop_grows [OF run] have "migrationExistsByDetails s' launch"
      by (rule exists_mono)
    with Cons.IH [OF run] show ?thesis by simp
  qed
qed

lemma checkLoop_all_known:
  "\<forall>t\<in>set ls. migrationExistsByDetails s t \<Longrightarrow> checkLoop env i ls acc s = (Inr acc, s)"
  by (induction ls arbitrary: i) auto

lemma checkLoop_writes_ok:
  "\<forall>j. writeOk (env j) \<Longrightarrow> holdsLedger s \<Longrightarrow> \<exists>new. fst (checkLoop env i ls acc s) = Inr new"
proof (induction ls arbitrary: i acc s)
  case Nil
  then show ?case by simp
next
  case (Cons launch rest)
  obtain r1 s1 where sv: "saveMigration (env i) launch s = (r1, s1)"
    by (cases "saveMigration (env i) launch s")
  with Cons.prems saveMigration_ok [of "env i" s launch] have r1: "r1 = Inr ()" by simp
  with sv have "holdsLedger s1" by (simp add: saveMigration_returns)
  with sv r1 Cons show ?case by simp
qed

text \<open>On a manager that holds a ledger, while every write succeeds, the cycle runs in full.\<close>

lemma writes_ok_completes:
  "\<forall>j. writeOk (env j) \<Longrightarrow> holdsLedger s \<Longrightarrow> cycleCompleted env launches s"
  using checkLoop_writes_ok [of env s 0 launches "[]"] by (auto simp: cycleCompleted_def)

lemma first_run_ex:
  "checkLoop env_ok 0 launches_ex [] (newDatabaseManager 0 NoFile) =
     (Inr [tok ''Addr1'' ''Alpha'' ''ALP'' (Some ''Addr1'') 10,
           tok ''Addr2'' ''Beta'' ''BET'' (Some ''Addr2'') 30],
      \<lparr> mem = Ledger \<lparr> migrations = [tok ''Addr2'' ''Beta'' ''BET'' (Some ''Addr2'') 30,
                                      tok ''Addr1'' ''Alpha'' ''ALP'' (Some ''Addr1'') 10],
                       lastUpdated = 1001 \<rparr>,
        disk = Snapshot \<lparr> migrations = [tok ''Addr2'' ''Beta'' ''BET'' (Some ''Addr2'') 30,
                                tok ''Addr1'' ''Alpha'' ''ALP'' (Some ''Addr1'') 10],
                 lastUpdated = 1001 \<rparr> \<rparr>)"
  by (simp add: launches_ex_def ledger_eval)

section \<open>Idempotence of the cycle\<close>

text \<open>
  Claim C1, as the code has it. A cycle absorbs a failed write: the first launch is put
  into the ledger in memory, the write throws out of the loop and nothing is notified. On
  the same launches, a second cycle that can write then skips the first launch, which is
  never notified, and notifies the second: it is not empty, and the ledger changes.
\<close>

theorem cycle_idempotent_counterexample:
  "fst (checkForNewMigrations env_readonly launches_ex (newDatabaseManager 0 NoFile)) = [] \<and>
   fst (checkForNewMigrations env_ok launches_ex
     (snd (checkForNewMigrations env_readonly launches_ex (newDatabaseManager 0 NoFile)))) =
     [tok ''Addr2'' ''Beta'' ''BET'' (Some ''Addr2'') 30] \<and>
   migrations (data (snd (checkForNewMigrations env_readonly launches_ex
     (newDatabaseManager 0 NoFile)))) = [tok ''Addr1'' ''Alpha'' ''ALP'' (Some ''Addr1'') 10] \<and>
   migrations (data (snd (checkForNewMigrations env_ok launches_ex
     (snd (checkForNewMigrations env_readonly launches_ex (newDatabaseManager 0 NoFile)))))) =
     [tok ''Addr2'' ''Beta'' ''BET'' (Some ''Addr2'') 30,
      tok ''Addr1'' ''Alpha'' ''ALP'' (Some ''Addr1'') 10]"
  by (simp add: launches_ex_def ledger_eval)

text \<open>
  Claim C1, amended. For any launches, any manager and any behaviour of the file system:
  when a first cycle has run in full, that is, no \<open>saveMigration\<close> threw out of its loop, a
  second cycle on the same launches hands no token to the notifier and leaves the manager,
  its in-memory ledger with \<open>lastUpdated\<close> and the file, exactly as the first cycle left
  it. The second cycle may meet any file system, also a failing one: it never writes. A
  first cycle runs in full whenever the manager holds a ledger and every write succeeds.
\<close>

theorem cycle_idempotent:
  "(cycleCompleted env1 launches s \<longrightarrow>
      checkForNewMigrations env2 launches (snd (checkForNewMigrations env1 launches s)) =
        ([], snd (checkForNewMigrations env1 launches s))) \<and>
   (holdsLedger s \<longrightarrow> (\<forall>j. writeOk (env1 j)) \<longrightarrow> cycleCompleted env1 launches s)"
proof (intro conjI impI)
  assume "holdsLedger s" and "\<forall>j. writeOk (env1 j)"
  then show "cycleCompleted env1 launches s"
    by (simp add: writes_ok_completes)
next
  assume full: "cycleCompleted env1 launches s"
  obtain r s1 where run1: "checkLoop env1 0 launches [] s = (r, s1)"
    by (cases "checkLoop env1 0 launches [] s")
  with full obtain new where r: "r = Inr new"
    by (cases r) (auto simp: cycleCompleted_def)
  have after1: "snd (checkForNewMigrations env1 launches s) = s1"
    using run1 r by (simp add: checkForNewMigrations_def)
  from run1 r have "\<forall>t\<in>set launches. migrationExistsByDetails s1 t"
    using checkLoop_all_exist by blast
  then have "checkLoop env2 0 launches [] s1 = (Inr [], s1)"
    by (rule checkLoop_all_known)
  then have "checkForNewMigrations env2 launches s1 = ([], s1)"
    by (simp add: checkForNewMigrations_def)
  then show "checkForNewMigrations env2 launches (snd (checkForNewMigrations env1 launches s)) =
        ([], snd (checkForNewMigrations env1 launches s))"
    by (simp only: after1)
qed

text \<open>
  On the three example launches, from an empty ledger: the first cycle notifies the first
  two (the third has the first one's address), the second cycle notifies none.
\<close>

theorem cycle_idempotent_witness:
  "cycleCompleted env_ok launches_ex (newDatabaseManager 0 NoFile) \<and>
   fst (checkForNewMigrations env_ok launches_ex (newDatabaseManager 0 NoFile)) =
     [tok ''Addr1'' ''Alpha'' ''ALP'' (Some ''Addr1'') 10,
      tok ''Addr2'' ''Beta'' ''BET'' (Some ''Addr2'') 30] \<and>
   checkForNewMigrations env_readonly launches_ex
       (snd (checkForNewMigrations env_ok launches_ex (newDatabaseManager 0 NoFile))) =
     ([], snd (checkForNewMigrations env_ok launches_ex (newDatabaseManager 0 NoFile)))"
proof -
  have "holdsLedger (newDatabaseManager 0 NoFile)" and "\<forall>j. writeOk (env_ok j)"
    by (simp_all add: newDatabaseManager_def holdsLedger_def env_ok_def)
  with cycle_idempotent [of env_ok launches_ex "newDatabaseManager 0 NoFile" env_readonly]
  have done1: "cycleCompleted env_ok launches_ex (newDatabaseManager 0 NoFile)"
    by blast
  have sent1: "fst (checkForNewMigrations env_ok launches_ex (newDatabaseManager 0 NoFile)) =
     [tok ''Addr1'' ''Alpha'' ''ALP'' (Some ''Addr1'') 10,
      tok ''Addr2'' ''Beta'' ''BET'' (Some ''Addr2'') 30]"
    by (simp add: checkForNewMigrations_def first_run_ex)
  from done1 sent1
    cycle_idempotent [of env_ok launches_ex "newDatabaseManager 0 NoFile" env_readonly]
  show ?thesis
    by blast
qed

section \<open>Identity matching\<close>

lemma toLowerCase_Nil_iff: "toLowerCase a = toLowerCase b \<Longrightarrow> (a = [] \<longleftrightarrow> b = [])"
  unfolding toLowerCase_def by (metis map_is_Nil_conv)

lemma matchedTier_exists: "migrationExistsByDetails s token \<longleftrightarrow> matchedTier s token \<noteq> None"
  by (cases "mem s") (simp_all add: migrationExistsByDetails_def matchedTier_def Let_def)

lemma matchedTier_tiers:
  "matchedTier s token =
     (if \<exists>m\<in>set (migrations (data s)). spec_sameContract token m then Some 1
      else if \<exists>m\<in>set (migrations (data s)). spec_sameSymbolName token m then Some 2
      else if \<exists>m\<in>set (migrations (data s)). spec_sameId token m then Some 3
      else None)"
proof (cases "mem s")
  case (Ledger d)
  then show ?thesis
    by (simp add: matchedTier_def data_def Let_def checksContract_iff existsBySymbolName_iff
        existsById_iff)
next
  case NullData
  then show ?thesis by (simp add: matchedTier_def data_def)
next
  case BareData
  then show ?thesis by (simp add: matchedTier_def data_def)
qed

text \<open>
  Claim C2. \<open>migrationExistsByDetails\<close> answers true exactly when some ledger entry
  matches the token in one of the three tiers: a contract address on both sides, equal
  without regard to case; symbol and name both equal without regard to case; equal ids.
  The tiers are tried in this order and the first that hits decides (\<open>matchedTier\<close> is the
  tier whose debug line the source logs). In particular an entry whose contract address
  differs from the token's only in letter case makes the token known, at the first tier.
\<close>

theorem tiered_identity_matching:
  "(migrationExistsByDetails s token \<longleftrightarrow>
      (\<exists>m\<in>set (migrations (data s)).
         spec_sameContract token m \<or> spec_sameSymbolName token m \<or> spec_sameId token m)) \<and>
   matchedTier s token =
     (if \<exists>m\<in>set (migrations (data s)). spec_sameContract token m then Some 1
      else if \<exists>m\<in>set (migrations (data s)). spec_sameSymbolName token m then Some 2
      else if \<exists>m\<in>set (migrations (data s)). spec_sameId token m then Some 3
      else None) \<and>
   (migrationExistsByDetails s token \<longleftrightarrow> matchedTier s token \<noteq> None) \<and>
   (\<forall>m a b. m \<in> set (migrations (data s)) \<longrightarrow> t_contractAddress m = Some a \<longrightarrow>
      t_contractAddress token = Some b \<longrightarrow> a \<noteq> [] \<longrightarrow> toLowerCase a = toLowerCase b \<longrightarrow>
      migrationExistsByDetails s token \<and> matchedTier s token = Some 1)"
proof (intro conjI allI impI)
  show "migrationExistsByDetails s token \<longleftrightarrow>
      (\<exists>m\<in>set (migrations (data s)).
         spec_sameContract token m \<or> spec_sameSymbolName token m \<or> spec_sameId token m)"
    by (rule exists_iff)
  show tiers: "matchedTier s token =
     (if \<exists>m\<in>set (migrations (data s)). spec_sameContract token m then Some 1
      else if \<exists>m\<in>set (migrations (data s)). spec_sameSymbolName token m then Some 2
      else if \<exists>m\<in>set (migrations (data s)). spec_sameId token m then Some 3
      else None)"
    by (rule matchedTier_tiers)
  show "migrationExistsByDetails s token \<longleftrightarrow> matchedTier s token \<noteq> None"
    by (rule matchedTier_exists)
  fix m a b
  assume m: "m \<in> set (migrations (data s))" and a: "t_contractAddress m = Some a"
    and b: "t_contractAddress token = Some b" and ne: "a \<noteq> []"
    and eq: "toLowerCase a = toLowerCase b"
  from eq ne have "b \<noteq> []" using toLowerCase_Nil_iff by blast
  with a b ne eq have "spec_sameContract token m" by (simp add: spec_sameContract_def)
  with m have hit: "\<exists>m\<in>set (migrations (data s)). spec_sameContract token m" by blast
  then show "matchedTier s token = Some 1" by (simp add: tiers)
  then show "migrationExistsByDetails s token" by (simp add: matchedTier_exists)
qed

text \<open>
  Against the example ledger: an address in another case hits tier 1, a symbol and name in
  another case hit tier 2, a bare id hits tier 3, and an unrelated token is unknown.
\<close>

theorem tiered_identity_matching_witness:
  "migrationExistsByDetails ledger_ex (tok ''ADDR1'' ''Other'' ''OTH'' (Some ''ADDR1'') 20) \<and>
   matchedTier ledger_ex (tok ''ADDR1'' ''Other'' ''OTH'' (Some ''ADDR1'') 20) = Some 1 \<and>
   matchedTier ledger_ex (tok ''x'' ''beta'' ''bet'' None 20) = Some 2 \<and>
   matchedTier ledger_ex (tok ''Addr2'' ''Gamma'' ''GAM'' None 20) = Some 3 \<and>
   \<not> migrationExistsByDetails ledger_ex (tok ''Addr3'' ''Gamma'' ''GAM'' (Some ''Addr3'') 20)"
proof -
  have hit: "migrationExistsByDetails ledger_ex (tok ''ADDR1'' ''Other'' ''OTH'' (Some ''ADDR1'') 20) \<and>
      matchedTier ledger_ex (tok ''ADDR1'' ''Other'' ''OTH'' (Some ''ADDR1'') 20) = Some 1"
    using tiered_identity_matching [of ledger_ex "tok ''ADDR1'' ''Other'' ''OTH'' (Some ''ADDR1'') 20",
        THEN conjunct2, THEN conjunct2, THEN conjunct2, rule_format,
        of "tok ''Addr1'' ''Alpha'' ''ALP'' (Some ''Addr1'') 10" "''Addr1''" "''ADDR1''"]
    by (simp add: ledger_ex_def tok_def toLowerCase_def lower_char_def data_def)
  have rest: "matchedTier ledger_ex (tok ''x'' ''beta'' ''bet'' None 20) = Some 2 \<and>
      matchedTier ledger_ex (tok ''Addr2'' ''Gamma'' ''GAM'' None 20) = Some 3 \<and>
      \<not> migrationExistsByDetails ledger_ex (tok ''Addr3'' ''Gamma'' ''GAM'' (Some ''Addr3'') 20)"
    by (simp add: ledger_ex_def ledger_eval)
  from hit rest show ?thesis by simp
qed

section \<open>The symbol and name tier applies to every token\<close>

lemma checkLoop_blocked:
  assumes "m \<in> set (migrations (data s))" and "spec_sameSymbolName token m"
      and "checkLoop env i ls acc s = (r, s')"
  shows "set (migrations (data s')) \<subseteq> set (migrations (data s)) \<union> (set ls - {token}) \<and>
         (\<forall>new. r = Inr new \<longrightarrow> set new \<subseteq> set acc \<union> (set ls - {token}))"
  using assms
proof (induction ls arbitrary: i acc s)
  case Nil
  then show ?case by auto
next
  case (Cons launch rest)
  show ?case
  proof (cases "migrationExistsByDetails s launch")
    case True
    with Cons.prems have run: "checkLoop env (Suc i) rest acc s = (r, s')" by simp
    from Cons.IH [OF Cons.prems(1,2) run] show ?thesis by auto
  next
    case False
    have "migrationExistsByDetails s token"
      unfolding exists_iff using Cons.prems(1,2) by blast
    with False have neq: "launch \<noteq> token" by auto
    obtain r1 s1 where sv: "saveMigration (env i) launch s = (r1, s1)"
      by (cases "saveMigration (env i) launch s")
    from Cons.prems(1) have "holdsLedger s" by (rule entry_holdsLedger)
    then have set1: "set (migrations (data s1)) = insert launch (set (migrations (data s)))"
      using new_token_keeps_all [OF _ False, of "env i"] sv by simp
    show ?thesis
    proof (cases r1)
      case (Inl e)
      with Cons.prems(3) False sv have "r = Inl e" "s' = s1" by auto
      with set1 neq show ?thesis by auto
    next
      case (Inr u)
      with Cons.prems(3) False sv
      have run: "checkLoop env (Suc i) rest (acc @ [launch]) s1 = (r, s')" by simp
      from set1 Cons.prems(1) have "m \<in> set (migrations (data s1))" by simp
      from Cons.IH [OF this Cons.prems(2) run] set1 neq show ?thesis by auto
    qed
  qed
qed

text \<open>
  Claim C10. The symbol and name check runs for every token, whatever its contract
  address. When some ledger entry has the token's symbol and name, without regard to case,
  the token is judged known, also when its contract address is new to the ledger; a cycle
  then neither hands it to the notifier nor adds it to the ledger, and the entry that
  blocks it is still there after the cycle, so the same holds in every later cycle.
\<close>

theorem symbol_name_tier_blocks:
  assumes "m \<in> set (migrations (data s))" and "spec_sameSymbolName token m"
  shows "migrationExistsByDetails s token \<and>
         token \<notin> set (fst (checkForNewMigrations env launches s)) \<and>
         (token \<in> set (migrations (data (snd (checkForNewMigrations env launches s)))) \<longrightarrow>
            token \<in> set (migrations (data s))) \<and>
         m \<in> set (migrations (data (snd (checkForNewMigrations env launches s))))"
proof -
  obtain r s' where run: "checkLoop env 0 launches [] s = (r, s')"
    by (cases "checkLoop env 0 launches [] s")
  have after: "snd (checkForNewMigrations env launches s) = s'"
    using run by (cases r) (simp_all add: checkForNewMigrations_def)
  have sent: "set (fst (checkForNewMigrations env launches s)) \<subseteq> set launches - {token}"
    using run checkLoop_blocked [OF assms run] by (cases r) (auto simp: checkForNewMigrations_def)
  have "migrationExistsByDetails s token"
    unfolding exists_iff using assms by blast
  moreover from sent have "token \<notin> set (fst (checkForNewMigrations env launches s))" by blast
  moreover have "token \<in> set (migrations (data s'))\<longrightarrow> token \<in> set (migrations (data s))"
    using checkLoop_blocked [OF assms run] by auto
  moreover have "m \<in> set (migrations (data s'))"
    using checkLoop_grows [OF run] assms(1) by blast
  ultimately show ?thesis by (simp only: after) simp
qed

text \<open>
  A token with a fresh address and id, and the symbol and name of an entry in another
  case: neither the contract check nor the id check hits, yet it is known and skipped.
\<close>

theorem symbol_name_tier_blocks_witness:
  "tok ''Addr1'' ''Alpha'' ''ALP'' (Some ''Addr1'') 10 \<in> set (migrations (data ledger_ex)) \<and>
   spec_sameSymbolName fresh_ex (tok ''Addr1'' ''Alpha'' ''ALP'' (Some ''Addr1'') 10) \<and>
   \<not> checksContract (migrations (data ledger_ex)) fresh_ex \<and>
   \<not> existsById (migrations (data ledger_ex)) fresh_ex \<and>
   migrationExistsByDetails ledger_ex fresh_ex \<and>
   fresh_ex \<notin> set (fst (checkForNewMigrations env_ok [fresh_ex] ledger_ex)) \<and>
   fresh_ex \<notin> set (migrations (data (snd (checkForNewMigrations env_ok [fresh_ex] ledger_ex))))"
proof -
  have m: "tok ''Addr1'' ''Alpha'' ''ALP'' (Some ''Addr1'') 10 \<in> set (migrations (data ledger_ex))"
    by (simp add: ledger_ex_def data_def)
  have sn: "spec_sameSymbolName fresh_ex (tok ''Addr1'' ''Alpha'' ''ALP'' (Some ''Addr1'') 10)"
    by (simp add: spec_sameSymbolName_def fresh_ex_def tok_def toLowerCase_def lower_char_def)
  have other: "\<not> checksContract (migrations (data ledger_ex)) fresh_ex \<and>
      \<not> existsById (migrations (data ledger_ex)) fresh_ex \<and>
      fresh_ex \<notin> set (migrations (data ledger_ex))"
    by (simp add: ledger_ex_def fresh_ex_def ledger_eval)
  from m sn other symbol_name_tier_blocks [OF m sn, of env_ok "[fresh_ex]"] show ?thesis
    by blast
qed

section \<open>The ledger invariant\<close>

lemma newestFirst_sort: "newestFirst (sort_key (\<lambda>m. - t_migrationDate m) ms)"
proof -
  have "sorted (map (\<lambda>m. - t_migrationDate m) (sort_key (\<lambda>m. - t_migrationDate m) ms))"
    by (rule sorted_sort_key)
  then show ?thesis
    by (simp add: newestFirst_def sorted_wrt_map)
qed

lemma filter_id_sort:
  "filter (\<lambda>m. t_id m = t_id t)
     (sort_key (\<lambda>m. - t_migrationDate m) (filter (\<lambda>m. t_id m \<noteq> t_id t) ms @ [t])) = [t]"
proof -
  have "filter (\<lambda>m. t_id m = t_id t) (filter (\<lambda>m. t_id m \<noteq> t_id t) ms @ [t]) = [t]"
    by (induction ms) auto
  then show ?thesis
    by (simp add: filter_sort)
qed

lemma uniqueIds_sort:
  assumes "uniqueIds ms"
  shows "uniqueIds (sort_key (\<lambda>m. - t_migrationDate m) (filter (\<lambda>m. t_id m \<noteq> t_id t) ms @ [t]))"
proof -
  let ?xs = "filter (\<lambda>m. t_id m \<noteq> t_id t) ms @ [t]"
  from assms have "distinct (map t_id (filter (\<lambda>m. t_id m \<noteq> t_id t) ms))"
    unfolding uniqueIds_def by (rule distinct_map_filter)
  then have d: "distinct (map t_id ?xs)" by auto
  have "distinct (map t_id (sort_key (\<lambda>m. - t_migrationDate m) ?xs)) = distinct (map t_id ?xs)"
    by (simp only: distinct_map distinct_sort set_sort)
  with d show ?thesis by (simp only: uniqueIds_def)
qed

text \<open>What \<open>initialize\<close> leaves behind when it returns, by the file it found.\<close>

lemma initialize_returns:
  assumes "initialize env s = (Inr u, s')"
  shows "(\<exists>d. disk s = Snapshot d \<and> s' = s\<lparr> mem := Ledger d \<rparr>) \<or>
         (disk s = JsonBare \<and> saveData env (s\<lparr> mem := BareData \<rparr>) = (Inr u, s')) \<or>
         saveData env s = (Inr u, s')"
proof (cases "dirExists env")
  case False
  with assms show ?thesis by (auto simp: initialize_def split: if_splits)
next
  case True
  with assms show ?thesis
    by (cases "disk s") (auto simp: initialize_def saveData_def)
qed




section \<open>Starting from missing or unparsable storage\<close>




text \<open>
  A file that parses and is not a ledger is outside the amended claim, and the code does
  not recover from it. On \<open>null\<close> the manager is left holding \<open>null\<close> and \<open>initialize\<close>
  throws a TypeError although every write would succeed. On an object without
  \<open>migrations\<close> it returns, the manager holds that object and the file is still not a
  ledger; from then on every token is judged new, \<open>saveMigration\<close> throws, and a cycle
  notifies nothing.
\<close>

lemma initialize_on_null:
  "initialize (env_ok 0) (newDatabaseManager 0 JsonNull) =
     (Inl TypeError, \<lparr> mem = NullData, disk = JsonNull \<rparr>)"
  by (simp add: ledger_eval)

lemma initialize_on_bare:
  "initialize (env_ok 0) (newDatabaseManager 0 JsonBare) =
     (Inr (), \<lparr> mem = BareData, disk = JsonBare \<rparr>) \<and>
   \<not> migrationExistsByDetails \<lparr> mem = BareData, disk = JsonBare \<rparr> fresh_ex \<and>
   saveMigration (env_ok 0) fresh_ex \<lparr> mem = BareData, disk = JsonBare \<rparr> =
     (Inl TypeError, \<lparr> mem = BareData, disk = JsonBare \<rparr>) \<and>
   checkForNewMigrations env_ok launches_ex \<lparr> mem = BareData, disk = JsonBare \<rparr> =
     ([], \<lparr> mem = BareData, disk = JsonBare \<rparr>)"
  by (simp add: launches_ex_def ledger_eval)

section \<open>Lemmas about the scraper\<close>

lemmas scraper_eval =
  parseToken_getNew_def parseToken_fetch_def buildMigration_def derivedMarketCap_def
  hasCompletedBonding_def hasCrossed100kMcap_def createdDate_def curveCompletedAt_def
  migrationDate_def totalRaisedOf_def synthesizedId_def randomId_def isAlnum_def
  raw_ex_def clock_ex_def clock_later_def idOf_def Let_def

lemmas example_defs =
  clocks_ex_def price_ex_def zero_ex_def launch_ex_def bonded_ex_def small_ex_def noaddr_ex_def
  threshold_ex_def below_ex_def curve_ex_def
  parseTokenLaunches_getNew_def parseTokenLaunches_fetch_def

text \<open>A record that either parser keeps has a valid \<open>migrationDate\<close> and is built from it.\<close>

lemma Included_cases:
  assumes "parseToken_getNew c token = Included t \<or> parseToken_fetch c token = Included t"
  obtains ms ident chain flag where "migrationDate c token = ValidDate ms"
    and "t = buildMigration c token ident chain flag ms"
  using assms
  by (auto simp: parseToken_getNew_def parseToken_fetch_def Let_def
      split: if_splits jsdate.splits)

lemma migrationDate_spec: "migrationDate c token = spec_qualificationTimestamp c token"
  by (simp add: migrationDate_def curveCompletedAt_def spec_qualificationTimestamp_def
      split: option.splits)

section \<open>Market cap\<close>

text \<open>
  Claim C4, as the code has it. The test is \<open>!marketCap\<close>, so a market cap of zero counts
  as missing: a record with \<open>marketCap = 0\<close> and \<open>price = 1\<close> gets 1,000,000,000, in both
  parsers, and not the zero it carries.
\<close>

theorem market_cap_derivation_counterexample:
  "marketCap zero_ex = Some 0 \<and>
   map t_marketCap (parseTokenLaunches_fetch clocks_ex [zero_ex]) = [Some 1000000000] \<and>
   map t_marketCap (parseTokenLaunches_getNew clocks_ex [zero_ex]) = [Some 1000000000]"
  by (simp add: example_defs scraper_eval)

text \<open>
  Claim C4, amended. For a record that either parser keeps: a market cap that is present
  and not zero is taken as it is; when the market cap is missing or zero and the price is
  present and not zero, the token's market cap is the price times 1,000,000,000; when the
  price is missing or zero, the token's market cap is the record's, present or not. In the
  parser of \<open>getNewMigrations\<close> this value is the one the threshold reads: a kept token
  qualifies by it, and a record is skipped exactly when it does not.
\<close>

theorem market_cap_derivation:
  assumes "parseToken_getNew c token = Included t \<or> parseToken_fetch c token = Included t"
  shows "(\<forall>m. marketCap token = Some m \<longrightarrow> m \<noteq> 0 \<longrightarrow> t_marketCap t = Some m) \<and>
         (\<forall>p. (marketCap token = None \<or> marketCap token = Some 0) \<longrightarrow> price token = Some p \<longrightarrow>
              p \<noteq> 0 \<longrightarrow> t_marketCap t = Some (p * 1000000000)) \<and>
         (price token = None \<or> price token = Some 0 \<longrightarrow> t_marketCap t = marketCap token) \<and>
         (parseToken_getNew c token = Included t \<longrightarrow> spec_qualifies token (t_marketCap t)) \<and>
         (parseToken_getNew c token = Skipped \<longleftrightarrow> \<not> spec_qualifies token (derivedMarketCap token))"
proof -
  from assms obtain ms ident chain flag where
    t: "t = buildMigration c token ident chain flag ms"
    by (rule Included_cases)
  then have mc: "t_marketCap t = derivedMarketCap token"
    by (simp add: buildMigration_def)
  have q: "spec_qualifies token mc \<longleftrightarrow> hasCompletedBonding token \<or> hasCrossed100kMcap mc" for mc
    by (cases mc) (auto simp: spec_qualifies_def hasCrossed100kMcap_def)
  have a: "\<forall>m. marketCap token = Some m \<longrightarrow> m \<noteq> 0 \<longrightarrow> t_marketCap t = Some m"
    by (auto simp: mc derivedMarketCap_def split: option.splits)
  have b: "\<forall>p. (marketCap token = None \<or> marketCap token = Some 0) \<longrightarrow> price token = Some p \<longrightarrow>
              p \<noteq> 0 \<longrightarrow> t_marketCap t = Some (p * 1000000000)"
    by (auto simp: mc derivedMarketCap_def)
  have c: "price token = None \<or> price token = Some 0 \<longrightarrow> t_marketCap t = marketCap token"
    by (auto simp: mc derivedMarketCap_def)
  have d: "parseToken_getNew c token = Included t \<longrightarrow> spec_qualifies token (t_marketCap t)"
    by (auto simp: mc q parseToken_getNew_def Let_def split: if_splits)
  have e: "parseToken_getNew c token = Skipped \<longleftrightarrow> \<not> spec_qualifies token (derivedMarketCap token)"
    by (auto simp: q parseToken_getNew_def Let_def split: if_splits jsdate.splits)
  from a b c d e show ?thesis by blast
qed

text \<open>A price of 0.0001 and no market cap: the token carries 100,000, and is kept.\<close>

theorem market_cap_derivation_witness:
  "parseToken_getNew clock_ex price_ex =
     Included (buildMigration clock_ex price_ex ''Addr1'' ''Bags.fm 100k+ Launch'' (Some False) 1000) \<and>
   marketCap price_ex = None \<and> price price_ex = Some (1 / 10000) \<and>
   t_marketCap (buildMigration clock_ex price_ex ''Addr1'' ''Bags.fm 100k+ Launch'' (Some False) 1000)
     = Some 100000"
proof -
  have inc: "parseToken_getNew clock_ex price_ex =
     Included (buildMigration clock_ex price_ex ''Addr1'' ''Bags.fm 100k+ Launch'' (Some False) 1000)"
    by (simp add: example_defs scraper_eval)
  have fields: "marketCap price_ex = None \<and> price price_ex = Some (1 / 10000)"
    by (simp add: price_ex_def raw_ex_def)
  from inc have "parseToken_getNew clock_ex price_ex =
       Included (buildMigration clock_ex price_ex ''Addr1'' ''Bags.fm 100k+ Launch'' (Some False) 1000) \<or>
     parseToken_fetch clock_ex price_ex =
       Included (buildMigration clock_ex price_ex ''Addr1'' ''Bags.fm 100k+ Launch'' (Some False) 1000)"
    by (rule disjI1)
  from market_cap_derivation [OF this, THEN conjunct2, THEN conjunct1, rule_format, of "1 / 10000"]
    fields
  have "t_marketCap (buildMigration clock_ex price_ex ''Addr1'' ''Bags.fm 100k+ Launch'' (Some False) 1000)
     = Some (1 / 10000 * 1000000000)"
    by simp
  with inc fields show ?thesis by simp
qed

section \<open>Timestamps\<close>

text \<open>
  Both parsers keep a record exactly when its date can be read and, for the parser of
  \<open>getNewMigrations\<close>, it qualifies; the token is then built from that date.
\<close>

lemma spec_qualifies_iff:
  "spec_qualifies token mc \<longleftrightarrow> hasCompletedBonding token \<or> hasCrossed100kMcap mc"
  by (cases mc) (auto simp: spec_qualifies_def hasCrossed100kMcap_def)

lemma createdDate_spec: "createdDate c token = spec_creationTimestamp c token"
  by (simp add: createdDate_def spec_creationTimestamp_def split: option.splits)

lemma bondingDuration_spec:
  "bondingDuration created (ValidDate ms) = spec_bondingDuration ms created"
  by (cases created) (simp_all add: spec_bondingDuration_def)

lemma buildMigration_dates:
  "t_migrationDate (buildMigration c token ident chain flag ms) = ms \<and>
   t_createdAt (buildMigration c token ident chain flag ms) = spec_creationTimestamp c token \<and>
   t_bondingDuration (buildMigration c token ident chain flag ms) =
     spec_bondingDuration ms (spec_creationTimestamp c token)"
  by (simp add: buildMigration_def createdDate_spec bondingDuration_spec)

lemma fetch_total:
  assumes "spec_qualificationTimestamp c token = ValidDate ms"
  shows "parseToken_fetch c token =
     Included (buildMigration c token (or_else (tokenAddress token) (randomId c))
       ''Bags.fm Launch'' None ms)"
  using assms by (simp add: parseToken_fetch_def migrationDate_spec)

lemma getNew_total:
  assumes "spec_qualificationTimestamp c token = ValidDate ms"
      and "spec_qualifies token (derivedMarketCap token)"
  shows "parseToken_getNew c token =
     Included (buildMigration c token (or_else (tokenAddress token) (synthesizedId token))
       (if hasCrossed100kMcap (derivedMarketCap token) then ''Bags.fm 100k+ Launch''
        else ''Bags.fm Launch'')
       (Some (hasCompletedBonding token)) ms)"
  using assms
  by (auto simp: parseToken_getNew_def Let_def migrationDate_spec spec_qualifies_iff)

text \<open>
  Claim C5. In both parsers \<open>migrationDate\<close> is the first present field in the order
  bonding-curve completion (\<open>bondingCurve.completedAt\<close>), migration, launch,
  \<open>bondingCompletedAt\<close>, \<open>completedAt\<close>, creation, and the current time when none is
  present: a token that is kept carries that instant, and a record for which that instant
  can be read is kept by the parser of \<open>fetchMigrations\<close>, and by the parser of
  \<open>getNewMigrations\<close> when it qualifies. In particular a record with a launch time and
  neither of the two fields before it resolves to the launch time, whatever its creation
  time and later fields hold.
\<close>

theorem date_priority:
  "(\<forall>t. parseToken_getNew c token = Included t \<or> parseToken_fetch c token = Included t \<longrightarrow>
        ValidDate (t_migrationDate t) = spec_qualificationTimestamp c token) \<and>
   (\<forall>ms. spec_qualificationTimestamp c token = ValidDate ms \<longrightarrow>
        (\<exists>t. parseToken_fetch c token = Included t \<and> t_migrationDate t = ms) \<and>
        (spec_qualifies token (derivedMarketCap token) \<longrightarrow>
           (\<exists>t. parseToken_getNew c token = Included t \<and> t_migrationDate t = ms))) \<and>
   (\<forall>ms. (case bondingCurve token of None \<Rightarrow> True | Some bc \<Rightarrow> bc_completedAt bc = None) \<longrightarrow>
        migratedAt token = None \<longrightarrow> launchedAt token = Some (ValidDate ms) \<longrightarrow>
        (\<exists>t. parseToken_fetch c token = Included t \<and> t_migrationDate t = ms) \<and>
        (spec_qualifies token (derivedMarketCap token) \<longrightarrow>
           (\<exists>t. parseToken_getNew c token = Included t \<and> t_migrationDate t = ms)))"
proof -
  have kept: "ValidDate (t_migrationDate t) = spec_qualificationTimestamp c token"
    if "parseToken_getNew c token = Included t \<or> parseToken_fetch c token = Included t" for t
  proof -
    from that obtain ms ident chain flag where md: "migrationDate c token = ValidDate ms"
      and t: "t = buildMigration c token ident chain flag ms"
      by (rule Included_cases)
    from t have "t_migrationDate t = ms" by (simp add: buildMigration_def)
    with md show ?thesis by (simp add: migrationDate_spec)
  qed
  have total: "(\<exists>t. parseToken_fetch c token = Included t \<and> t_migrationDate t = ms) \<and>
        (spec_qualifies token (derivedMarketCap token) \<longrightarrow>
           (\<exists>t. parseToken_getNew c token = Included t \<and> t_migrationDate t = ms))"
    if q: "spec_qualificationTimestamp c token = ValidDate ms" for ms
    using fetch_total [OF q] getNew_total [OF q] buildMigration_dates by simp
  have launch: "spec_qualificationTimestamp c token = ValidDate ms"
    if "case bondingCurve token of None \<Rightarrow> True | Some bc \<Rightarrow> bc_completedAt bc = None"
      and "migratedAt token = None" and "launchedAt token = Some (ValidDate ms)" for ms
    using that by (simp add: spec_qualificationTimestamp_def split: option.splits)
  from kept total launch show ?thesis by blast
qed

text \<open>
  Seven records, one for each rung of the order, through both parsers: the curve's
  completion beats \<open>migratedAt\<close>, which beats \<open>launchedAt\<close>, which beats \<open>completedAt\<close>;
  \<open>bondingCompletedAt\<close> beats \<open>completedAt\<close>, which beats \<open>createdAt\<close>; and with no field
  at all the clock is read. The last two records do not qualify, so the parser of
  \<open>getNewMigrations\<close> skips them.
\<close>

theorem date_priority_witness:
  "map t_migrationDate (parseTokenLaunches_fetch clocks_ex dates_ex) =
     [6000000, 5000000, 5000, 3000, 7000, 1000, 9000000] \<and>
   map t_migrationDate (parseTokenLaunches_getNew clocks_ex dates_ex) =
     [6000000, 5000000, 5000, 3000, 7000] \<and>
   launchedAt launch_ex = Some (ValidDate 5000) \<and> createdAt launch_ex = Some (ValidDate 1000) \<and>
   completedAt launch_ex = Some (ValidDate 7000) \<and>
   parseToken_fetch clock_ex launch_ex =
     Included (buildMigration clock_ex launch_ex ''Addr1'' ''Bags.fm Launch'' None 5000) \<and>
   parseToken_getNew clock_ex launch_ex =
     Included (buildMigration clock_ex launch_ex ''Addr1'' ''Bags.fm 100k+ Launch'' (Some True) 5000) \<and>
   spec_qualificationTimestamp clock_ex launch_ex = ValidDate 5000 \<and>
   spec_qualificationTimestamp clock_ex curve_ex = ValidDate 6000000"
proof -
  have lists: "map t_migrationDate (parseTokenLaunches_fetch clocks_ex dates_ex) =
      [6000000, 5000000, 5000, 3000, 7000, 1000, 9000000] \<and>
    map t_migrationDate (parseTokenLaunches_getNew clocks_ex dates_ex) =
      [6000000, 5000000, 5000, 3000, 7000]"
    by (simp add: dates_ex_def example_defs scraper_eval)
  have fields: "launchedAt launch_ex = Some (ValidDate 5000) \<and>
      createdAt launch_ex = Some (ValidDate 1000) \<and> completedAt launch_ex = Some (ValidDate 7000)"
    by (simp add: launch_ex_def raw_ex_def)
  have incF: "parseToken_fetch clock_ex launch_ex =
      Included (buildMigration clock_ex launch_ex ''Addr1'' ''Bags.fm Launch'' None 5000)"
    by (simp add: example_defs scraper_eval)
  have incG: "parseToken_getNew clock_ex launch_ex =
      Included (buildMigration clock_ex launch_ex ''Addr1'' ''Bags.fm 100k+ Launch'' (Some True) 5000)"
    by (simp add: example_defs scraper_eval)
  have ms: "t_migrationDate
      (buildMigration clock_ex launch_ex ''Addr1'' ''Bags.fm Launch'' None 5000) = 5000"
    by (simp add: buildMigration_def)
  from incF have "parseToken_getNew clock_ex launch_ex =
       Included (buildMigration clock_ex launch_ex ''Addr1'' ''Bags.fm Launch'' None 5000) \<or>
     parseToken_fetch clock_ex launch_ex =
       Included (buildMigration clock_ex launch_ex ''Addr1'' ''Bags.fm Launch'' None 5000)"
    by (rule disjI2)
  from date_priority [of clock_ex launch_ex, THEN conjunct1, rule_format, OF this] ms
  have launch: "spec_qualificationTimestamp clock_ex launch_ex = ValidDate 5000"
    by simp
  have curve: "spec_qualificationTimestamp clock_ex curve_ex = ValidDate 6000000"
    by (simp add: spec_qualificationTimestamp_def curve_ex_def raw_ex_def)
  from lists fields incF incG launch curve show ?thesis by blast
qed

text \<open>
  Claim C6. In both parsers \<open>bondingDuration\<close> is present exactly when \<open>migrationDate\<close> is
  strictly later than \<open>createdAt\<close>, and then it is their difference in hours, which is
  positive: this holds of every token that is kept, and every record whose date can be
  read is kept with that field by the parser of \<open>fetchMigrations\<close>, and by the parser of
  \<open>getNewMigrations\<close> when it qualifies.
\<close>

theorem bonding_duration:
  "(\<forall>t. parseToken_getNew c token = Included t \<or> parseToken_fetch c token = Included t \<longrightarrow>
        (t_bondingDuration t \<noteq> None \<longleftrightarrow> laterThan (t_migrationDate t) (t_createdAt t)) \<and>
        (\<forall>h. t_bondingDuration t = Some h \<longrightarrow>
             h = spec_hours (t_migrationDate t) (t_createdAt t) \<and> 0 < h)) \<and>
   (\<forall>ms. spec_qualificationTimestamp c token = ValidDate ms \<longrightarrow>
        (\<exists>t. parseToken_fetch c token = Included t \<and> t_migrationDate t = ms \<and>
             t_createdAt t = spec_creationTimestamp c token \<and>
             t_bondingDuration t = spec_bondingDuration ms (spec_creationTimestamp c token)) \<and>
        (spec_qualifies token (derivedMarketCap token) \<longrightarrow>
           (\<exists>t. parseToken_getNew c token = Included t \<and> t_migrationDate t = ms \<and>
                t_createdAt t = spec_creationTimestamp c token \<and>
                t_bondingDuration t = spec_bondingDuration ms (spec_creationTimestamp c token))))"
proof -
  have kept: "(t_bondingDuration t \<noteq> None \<longleftrightarrow> laterThan (t_migrationDate t) (t_createdAt t)) \<and>
        (\<forall>h. t_bondingDuration t = Some h \<longrightarrow>
             h = spec_hours (t_migrationDate t) (t_createdAt t) \<and> 0 < h)"
    if "parseToken_getNew c token = Included t \<or> parseToken_fetch c token = Included t" for t
  proof -
    from that obtain ms ident chain flag where
      t: "t = buildMigration c token ident chain flag ms"
      by (rule Included_cases)
    then have bd: "t_bondingDuration t = bondingDuration (t_createdAt t) (ValidDate (t_migrationDate t))"
      by (simp add: buildMigration_def)
    show ?thesis
    proof (cases "t_createdAt t")
      case InvalidDate
      with bd show ?thesis by simp
    next
      case (ValidDate created)
      show ?thesis
      proof (cases "t_migrationDate t > created")
        case True
        with bd ValidDate
        have "t_bondingDuration t = Some (of_int (t_migrationDate t - created) / (1000 * 60 * 60))"
          by simp
        moreover from True have "(0::rat) < of_int (t_migrationDate t - created) / (1000 * 60 * 60)"
          by simp
        ultimately show ?thesis using True ValidDate by simp
      next
        case False
        with bd ValidDate show ?thesis by simp
      qed
    qed
  qed
  have total: "(\<exists>t. parseToken_fetch c token = Included t \<and> t_migrationDate t = ms \<and>
             t_createdAt t = spec_creationTimestamp c token \<and>
             t_bondingDuration t = spec_bondingDuration ms (spec_creationTimestamp c token)) \<and>
        (spec_qualifies token (derivedMarketCap token) \<longrightarrow>
           (\<exists>t. parseToken_getNew c token = Included t \<and> t_migrationDate t = ms \<and>
                t_createdAt t = spec_creationTimestamp c token \<and>
                t_bondingDuration t = spec_bondingDuration ms (spec_creationTimestamp c token)))"
    if q: "spec_qualificationTimestamp c token = ValidDate ms" for ms
    using fetch_total [OF q] getNew_total [OF q] buildMigration_dates by simp
  from kept total show ?thesis by blast
qed

text \<open>
  Four records through both parsers: migrated two hours after creation, the duration is
  2; migrated before creation, at the moment of creation, or with a creation date that
  cannot be read, there is none.
\<close>

theorem bonding_duration_witness:
  "map t_bondingDuration (parseTokenLaunches_fetch clocks_ex durations_ex) =
     [Some 2, None, None, None] \<and>
   map t_bondingDuration (parseTokenLaunches_getNew clocks_ex durations_ex) =
     [Some 2, None, None, None] \<and>
   parseToken_fetch clock_ex bonded_ex =
     Included (buildMigration clock_ex bonded_ex ''Addr1'' ''Bags.fm Launch'' None 7201000) \<and>
   parseToken_getNew clock_ex bonded_ex =
     Included (buildMigration clock_ex bonded_ex ''Addr1'' ''Bags.fm Launch'' (Some True) 7201000) \<and>
   t_createdAt (buildMigration clock_ex bonded_ex ''Addr1'' ''Bags.fm Launch'' (Some True) 7201000)
     = ValidDate 1000 \<and>
   t_bondingDuration (buildMigration clock_ex bonded_ex ''Addr1'' ''Bags.fm Launch'' (Some True) 7201000)
     = Some 2 \<and>
   laterThan 7201000 (ValidDate 1000)"
proof -
  have lists: "map t_bondingDuration (parseTokenLaunches_fetch clocks_ex durations_ex) =
      [Some 2, None, None, None] \<and>
    map t_bondingDuration (parseTokenLaunches_getNew clocks_ex durations_ex) =
      [Some 2, None, None, None]"
    by (simp add: durations_ex_def example_defs scraper_eval)
  have incF: "parseToken_fetch clock_ex bonded_ex =
     Included (buildMigration clock_ex bonded_ex ''Addr1'' ''Bags.fm Launch'' None 7201000)"
    by (simp add: example_defs scraper_eval)
  have inc: "parseToken_getNew clock_ex bonded_ex =
     Included (buildMigration clock_ex bonded_ex ''Addr1'' ''Bags.fm Launch'' (Some True) 7201000)"
    by (simp add: example_defs scraper_eval)
  have bd: "t_bondingDuration
      (buildMigration clock_ex bonded_ex ''Addr1'' ''Bags.fm Launch'' (Some True) 7201000) = Some 2 \<and>
    t_createdAt (buildMigration clock_ex bonded_ex ''Addr1'' ''Bags.fm Launch'' (Some True) 7201000)
      = ValidDate 1000 \<and>
    t_migrationDate (buildMigration clock_ex bonded_ex ''Addr1'' ''Bags.fm Launch'' (Some True) 7201000)
      = 7201000"
    by (simp add: example_defs scraper_eval)
  from inc have "parseToken_getNew clock_ex bonded_ex =
       Included (buildMigration clock_ex bonded_ex ''Addr1'' ''Bags.fm Launch'' (Some True) 7201000) \<or>
     parseToken_fetch clock_ex bonded_ex =
       Included (buildMigration clock_ex bonded_ex ''Addr1'' ''Bags.fm Launch'' (Some True) 7201000)"
    by (rule disjI1)
  from bonding_duration [of clock_ex bonded_ex, THEN conjunct1, rule_format, OF this, THEN conjunct1] bd
  have "laterThan 7201000 (ValidDate 1000)"
    by simp
  with lists incF inc bd show ?thesis by simp
qed

section \<open>Qualification\<close>

text \<open>
  The parser of \<open>getNewMigrations\<close> skips a record exactly when it does not qualify, and
  keeps it exactly when it qualifies, unless its date cannot be read. The parser of
  \<open>fetchMigrations\<close> never skips.
\<close>

lemma getNew_qualification:
  "(parseToken_getNew c token = Skipped \<longleftrightarrow> \<not> spec_qualifies token (derivedMarketCap token)) \<and>
   (parseToken_getNew c token \<noteq> ParseError \<longrightarrow>
      ((\<exists>t. parseToken_getNew c token = Included t) \<longleftrightarrow>
         spec_qualifies token (derivedMarketCap token)))"
proof -
  have q: "spec_qualifies token mc \<longleftrightarrow> hasCompletedBonding token \<or> hasCrossed100kMcap mc" for mc
    by (cases mc) (auto simp: spec_qualifies_def hasCrossed100kMcap_def)
  show ?thesis
    by (auto simp: q parseToken_getNew_def Let_def split: if_splits jsdate.splits)
qed

lemma fetch_never_skips: "parseToken_fetch c token \<noteq> Skipped"
  by (simp add: parseToken_fetch_def split: jsdate.splits)

text \<open>
  The threshold is inclusive: with no completion signal, a market cap of exactly 100,000
  is kept and one of 99,999.99 is skipped; with a \<open>migrated\<close> flag it is kept again.
\<close>

lemma getNew_threshold:
  "map t_marketCap (parseTokenLaunches_getNew clocks_ex [threshold_ex]) = [Some 100000] \<and>
   parseToken_getNew clock_ex below_ex = Skipped \<and>
   map t_marketCap (parseTokenLaunches_getNew clocks_ex [below_ex\<lparr> migrated := Some True \<rparr>]) =
     [Some (9999999 / 100)]"
  by (simp add: example_defs scraper_eval)

text \<open>
  Claim C3, at a record the rule excludes: no completion signal and a market cap of 5,000.
  The parser of \<open>getNewMigrations\<close> drops it; the parser of \<open>fetchMigrations\<close>, which the
  bot calls, returns it.
\<close>

theorem fetch_keeps_unqualified:
  "marketCap small_ex = Some 5000 \<and>
   parseTokenLaunches_getNew clocks_ex [small_ex] = [] \<and>
   map t_id (parseTokenLaunches_fetch clocks_ex [small_ex]) = [''Addr1''] \<and>
   map t_marketCap (parseTokenLaunches_fetch clocks_ex [small_ex]) = [Some 5000]"
  by (simp add: example_defs scraper_eval)

section \<open>The id of a record without an address\<close>

text \<open>
  In the parser of \<open>getNewMigrations\<close> the id of such a record is made of its symbol and
  name alone, and is never empty.
\<close>

lemma synthesizedId_deterministic:
  "symbol a = symbol b \<Longrightarrow> name a = name b \<Longrightarrow> synthesizedId a = synthesizedId b"
  by (simp add: synthesizedId_def)

lemma synthesizedId_nonempty: "synthesizedId token \<noteq> []"
  by (simp add: synthesizedId_def isAlnum_def)

lemma getNew_id:
  assumes "parseToken_getNew c token = Included t"
      and "tokenAddress token = None \<or> tokenAddress token = Some []"
  shows "t_id t = synthesizedId token"
  using assms
  by (auto simp: parseToken_getNew_def buildMigration_def Let_def split: if_splits jsdate.splits)

text \<open>
  Claim C9, at a record without an address, parsed at two moments. The parser of
  \<open>getNewMigrations\<close> gives the same id both times; the parser of \<open>fetchMigrations\<close>, which
  the bot calls, draws the id from \<open>Date.now()\<close> and \<open>Math.random()\<close> and gives two.
\<close>

theorem fetch_id_not_deterministic:
  "tokenAddress noaddr_ex = None \<and>
   idOf (parseToken_fetch clock_ex noaddr_ex) = Some ''token-1700000000000-0.25'' \<and>
   idOf (parseToken_fetch clock_later noaddr_ex) = Some ''token-1700000300000-0.75'' \<and>
   idOf (parseToken_getNew clock_ex noaddr_ex) = Some ''tokenALPAlpha'' \<and>
   idOf (parseToken_getNew clock_later noaddr_ex) = Some ''tokenALPAlpha''"
  by (simp add: example_defs scraper_eval)

end
